theory Spec2Isabelle
  imports Main "HOL-Library.Log_Nat"
begin

section \<open>The JavaScript values the gateway computes with\<close>

text \<open>
  Strings are lists of code units; the model covers the code units below 256, which is
  enough for header names, prices and tool names. An optional property
  (\<^verbatim>\<open>x?: string\<close>) is an \<^typ>\<open>string option\<close>, and a \<^verbatim>\<open>Record<string, string>\<close> is a
  map from its own keys to their values. Reading such a record with a literal key that no
  object inherits (a header name) is the map itself; reading it with a computed key is
  \<open>js_get\<close> below, which falls back to what every plain object inherits.
\<close>

subsection \<open>Truthiness and string helpers\<close>

definition truthy :: "string option \<Rightarrow> bool" where
  \<comment> \<open>JavaScript truthiness of an optional string: \<^verbatim>\<open>undefined\<close> and \<^verbatim>\<open>''\<close> are falsy.\<close>
  "truthy v = (case v of None \<Rightarrow> False | Some s \<Rightarrow> s \<noteq> [])"

definition or_else :: "string option \<Rightarrow> string option \<Rightarrow> string option" where
  \<comment> \<open>\<^verbatim>\<open>a || b\<close> on optional strings.\<close>
  "or_else a b = (if truthy a then a else b)"

definition or_default :: "string option \<Rightarrow> string \<Rightarrow> string" where
  \<comment> \<open>\<^verbatim>\<open>a || 'literal'\<close>.\<close>
  "or_default a d = (case a of None \<Rightarrow> d | Some s \<Rightarrow> if s = [] then d else s)"

subsection \<open>Property lookup on plain objects\<close>

text \<open>
  The value of \<^verbatim>\<open>obj[key]\<close> on a plain object: the own property when there is one; otherwise,
  for a key that names a member of \<^verbatim>\<open>Object.prototype\<close>, that member (a function, or the
  prototype object for \<^verbatim>\<open>__proto__\<close>), which is truthy and is not a string; otherwise
  \<^verbatim>\<open>undefined\<close>.
\<close>

datatype jsval = Undefined | Str string | Member string

definition object_prototype_members :: "string list" where
  "object_prototype_members =
     [''constructor'', ''hasOwnProperty'', ''isPrototypeOf'', ''propertyIsEnumerable'',
      ''toLocaleString'', ''toString'', ''valueOf'', ''__proto__'', ''__defineGetter__'',
      ''__defineSetter__'', ''__lookupGetter__'', ''__lookupSetter__'']"

definition js_get :: "(string \<rightharpoonup> string) \<Rightarrow> string \<Rightarrow> jsval" where
  "js_get obj k =
     (case obj k of
        Some v \<Rightarrow> Str v
      | None \<Rightarrow> if k \<in> set object_prototype_members then Member k else Undefined)"

definition truthy_val :: "jsval \<Rightarrow> bool" where
  "truthy_val v = (case v of Undefined \<Rightarrow> False | Str s \<Rightarrow> s \<noteq> [] | Member m \<Rightarrow> True)"


fun is_prefix :: "string \<Rightarrow> string \<Rightarrow> bool" where
  \<comment> \<open>\<^verbatim>\<open>s.startsWith(p)\<close>\<close>
  "is_prefix [] s = True"
| "is_prefix (c # p) s = (case s of [] \<Rightarrow> False | d # s' \<Rightarrow> c = d \<and> is_prefix p s')"

fun replace_first :: "string \<Rightarrow> string \<Rightarrow> string \<Rightarrow> string" where
  \<comment> \<open>\<^verbatim>\<open>s.replace(pat, rep)\<close> with a string pattern: only the first occurrence.\<close>
  "replace_first pat rep [] = (if pat = [] then rep else [])"
| "replace_first pat rep (c # cs) =
     (if is_prefix pat (c # cs) then rep @ drop (length pat) (c # cs)
      else c # replace_first pat rep cs)"

definition is_digit :: "char \<Rightarrow> bool" where
  "is_digit c = (c \<in> set ''0123456789'')"

definition digit_val :: "char \<Rightarrow> int" where
  \<comment> \<open>The value of a decimal digit; 0 for any other character.\<close>
  "digit_val c =
     (case map_of (zip ''0123456789'' [0, 1, 2, 3, 4, 5, 6, 7, 8, 9]) c of
        Some d \<Rightarrow> d
      | None \<Rightarrow> 0)"

definition digits_val :: "string \<Rightarrow> int" where
  \<comment> \<open>The number a string of decimal digits denotes.\<close>
  "digits_val ds = foldl (\<lambda>a c. 10 * a + digit_val c) 0 ds"

definition is_js_space :: "char \<Rightarrow> bool" where
  \<comment> \<open>White space and line terminators below 256: TAB, LF, VT, FF, CR, SP, NBSP.\<close>
  "is_js_space c =
     (c \<in> set [CHR 0x09, CHR 0x0A, CHR 0x0B, CHR 0x0C, CHR 0x0D, CHR 0x20, CHR 0xA0])"

function digits_of :: "int \<Rightarrow> string" where
  \<comment> \<open>Decimal rendering of a non-negative integer, without leading zeros.\<close>
  "digits_of n = (if n < 10 then [''0123456789'' ! nat n]
                  else digits_of (n div 10) @ [''0123456789'' ! nat (n mod 10)])"
  by pat_completeness auto
termination
  by (relation "measure nat") auto

declare digits_of.simps [simp del]

definition int_digits :: "int \<Rightarrow> string" where
  "int_digits i = digits_of i"

subsection \<open>Numbers: IEEE 754 binary64, round to nearest, ties to even\<close>

text \<open>
  \<open>Fin s m e\<close> is the finite double with sign \<open>s\<close> (\<open>True\<close> for negative) and
  magnitude \<open>m * 2 ^ e\<close>; the zeros are \<open>Fin s 0 0\<close>. \<open>round_ratio s n d\<close> is the
  double nearest to the exact quotient \<open>n / d\<close> (for \<open>0 \<le> n\<close>, \<open>0 < d\<close>) with sign
  \<open>s\<close>: a 53-bit significand, exponents from \<open>-1074\<close> (subnormals) to \<open>971\<close>,
  overflow to infinity.
\<close>

datatype jsnum = NaN | Inf bool | Fin bool int int

definition ilog2_ratio :: "int \<Rightarrow> int \<Rightarrow> int" where
  \<comment> \<open>\<open>\<lfloor>log\<^sub>2 (n / d)\<rfloor>\<close> for positive \<open>n\<close> and \<open>d\<close>.\<close>
  "ilog2_ratio n d = (let k0 = bitlen n - bitlen d in
     if d * 2 ^ nat k0 \<le> n * 2 ^ nat (- k0) then k0 else k0 - 1)"

definition round_ratio :: "bool \<Rightarrow> int \<Rightarrow> int \<Rightarrow> jsnum" where
  "round_ratio neg n d = (if n = 0 then Fin neg 0 0 else
     (let e = max (ilog2_ratio n d - 52) (- 1074);
          N = n * 2 ^ nat (- e);
          D = d * 2 ^ nat e;
          f = N div D;
          r = N mod D;
          m = (if 2 * r < D then f else if D < 2 * r then f + 1
               else if even f then f else f + 1);
          m' = (if m = 2 ^ 53 then 2 ^ 52 else m);
          e' = (if m = 2 ^ 53 then e + 1 else e)
      in if 971 < e' then Inf neg else if m' = 0 then Fin neg 0 0 else Fin neg m' e'))"

definition js_number :: "nat \<Rightarrow> jsnum" where
  \<comment> \<open>A numeric literal such as \<^verbatim>\<open>100\<close> or \<^verbatim>\<open>1_000_000\<close>.\<close>
  "js_number n = round_ratio False (int n) 1"

fun js_mul :: "jsnum \<Rightarrow> jsnum \<Rightarrow> jsnum" where
  "js_mul NaN y = NaN"
| "js_mul x NaN = NaN"
| "js_mul (Inf s) (Inf t) = Inf (s \<noteq> t)"
| "js_mul (Inf s) (Fin t m e) = (if m = 0 then NaN else Inf (s \<noteq> t))"
| "js_mul (Fin s m e) (Inf t) = (if m = 0 then NaN else Inf (s \<noteq> t))"
| "js_mul (Fin s m e) (Fin t m' e') =
     round_ratio (s \<noteq> t) (m * m' * 2 ^ nat (e + e')) (2 ^ nat (- (e + e')))"

fun js_div :: "jsnum \<Rightarrow> jsnum \<Rightarrow> jsnum" where
  "js_div NaN y = NaN"
| "js_div x NaN = NaN"
| "js_div (Inf s) (Inf t) = NaN"
| "js_div (Inf s) (Fin t m e) = Inf (s \<noteq> t)"
| "js_div (Fin s m e) (Inf t) = Fin (s \<noteq> t) 0 0"
| "js_div (Fin s m e) (Fin t m' e') =
     (if m' = 0 then (if m = 0 then NaN else Inf (s \<noteq> t))
      else round_ratio (s \<noteq> t) (m * 2 ^ nat (e - e')) (m' * 2 ^ nat (e' - e)))"

fun js_add :: "jsnum \<Rightarrow> jsnum \<Rightarrow> jsnum" where
  "js_add NaN y = NaN"
| "js_add x NaN = NaN"
| "js_add (Inf s) (Inf t) = (if s = t then Inf s else NaN)"
| "js_add (Inf s) (Fin t m e) = Inf s"
| "js_add (Fin s m e) (Inf t) = Inf t"
| "js_add (Fin s m e) (Fin t m' e') =
     (let e0 = min e e';
          a = (if s then - m else m) * 2 ^ nat (e - e0)
            + (if t then - m' else m') * 2 ^ nat (e' - e0)
      in if a = 0 then Fin (s \<and> t) 0 0
         else round_ratio (a < 0) (\<bar>a\<bar> * 2 ^ nat e0) (2 ^ nat (- e0)))"

fun js_floor :: "jsnum \<Rightarrow> jsnum" where
  \<comment> \<open>\<^verbatim>\<open>Math.floor\<close>.\<close>
  "js_floor NaN = NaN"
| "js_floor (Inf s) = Inf s"
| "js_floor (Fin s m e) =
     (if 0 \<le> e \<or> m = 0 then Fin s m e
      else (let q = (if s then - m else m) div 2 ^ nat (- e)
            in round_ratio (q < 0) \<bar>q\<bar> 1))"

definition js_isNaN :: "jsnum \<Rightarrow> bool" where
  "js_isNaN x = (x = NaN)"

subsection \<open>\<^verbatim>\<open>parseFloat\<close>\<close>

text \<open>
  \<^verbatim>\<open>parseFloat\<close> skips leading white space and converts the longest prefix that is a
  decimal literal (optional sign, \<^verbatim>\<open>Infinity\<close> or digits with an optional fraction and an
  optional complete exponent part); without such a prefix the result is \<^verbatim>\<open>NaN\<close>. The
  literal's exact decimal value is rounded to the nearest double.
\<close>

definition decimal_value :: "bool \<Rightarrow> string \<Rightarrow> int \<Rightarrow> jsnum" where
  \<comment> \<open>The double nearest to \<open>digits * 10 ^ x\<close>.\<close>
  "decimal_value neg ds x = round_ratio neg (digits_val ds * 10 ^ nat x) (10 ^ nat (- x))"

definition parse_exponent :: "string \<Rightarrow> int" where
  \<comment> \<open>The value of a complete exponent part at the head of the string, otherwise 0.\<close>
  "parse_exponent cs = (case cs of
       [] \<Rightarrow> 0
     | c # r \<Rightarrow>
         if c = CHR ''e'' \<or> c = CHR ''E'' then
           (let sg = (r \<noteq> [] \<and> hd r = CHR ''-'');
                r' = (if r \<noteq> [] \<and> (hd r = CHR ''+'' \<or> hd r = CHR ''-'') then tl r else r);
                ds = takeWhile is_digit r'
            in if ds = [] then 0 else if sg then - digits_val ds else digits_val ds)
         else 0)"

definition parse_unsigned :: "bool \<Rightarrow> string \<Rightarrow> jsnum" where
  "parse_unsigned neg cs =
     (if is_prefix ''Infinity'' cs then Inf neg
      else
        (let ip = takeWhile is_digit cs;
             r1 = dropWhile is_digit cs
         in if r1 \<noteq> [] \<and> hd r1 = CHR ''.'' then
              (let fp = takeWhile is_digit (tl r1);
                   r3 = dropWhile is_digit (tl r1)
               in if ip = [] \<and> fp = [] then NaN
                  else decimal_value neg (ip @ fp) (parse_exponent r3 - int (length fp)))
            else if ip = [] then NaN
            else decimal_value neg ip (parse_exponent r1)))"

definition js_parseFloat :: "string \<Rightarrow> jsnum" where
  "js_parseFloat s =
     (let t = dropWhile is_js_space s
      in if t \<noteq> [] \<and> hd t = CHR ''+'' then parse_unsigned False (tl t)
         else if t \<noteq> [] \<and> hd t = CHR ''-'' then parse_unsigned True (tl t)
         else parse_unsigned False t)"

subsection \<open>\<^verbatim>\<open>Number.prototype.toString\<close> and \<^verbatim>\<open>toFixed\<close>\<close>

text \<open>
  \<^verbatim>\<open>toString\<close> prints the shortest decimal digit string that reads back as the same
  double (the closest one when several of that length do), as plain digits when the decimal
  point falls within 21 digits and in exponent notation otherwise.
\<close>

definition declen :: "int \<Rightarrow> int" where
  "declen i = int (length (int_digits i))"

definition decimal_point :: "int \<Rightarrow> int \<Rightarrow> int" where
  \<comment> \<open>The \<open>n\<close> with \<open>10 ^ (n - 1) \<le> N / D < 10 ^ n\<close>, for positive \<open>N\<close> and \<open>D\<close>.\<close>
  "decimal_point N D =
     (if D \<le> N then declen (N div D)
      else (let l = declen (D div N) in if D \<le> N * 10 ^ nat (l - 1) then 2 - l else 1 - l))"

definition nearest_at :: "int \<Rightarrow> int \<Rightarrow> int \<Rightarrow> int" where
  \<comment> \<open>The integer nearest to \<open>N / (D * 10 ^ p)\<close>, ties to even.\<close>
  "nearest_at N D p =
     (let A = N * 10 ^ nat (- p); B = D * 10 ^ nat p; lo = A div B; r = A mod B
      in if 2 * r < B then lo else if B < 2 * r then lo + 1 else if even lo then lo else lo + 1)"

definition reads_back :: "int \<Rightarrow> int \<Rightarrow> int \<Rightarrow> int \<Rightarrow> bool" where
  \<comment> \<open>\<open>s * 10 ^ p\<close> rounds to the same double as \<open>N / D\<close>.\<close>
  "reads_back N D s p =
     (round_ratio False (s * 10 ^ nat p) (10 ^ nat (- p)) = round_ratio False N D)"

definition shortest_at :: "int \<Rightarrow> int \<Rightarrow> int \<Rightarrow> int \<Rightarrow> (int \<times> int) option" where
  \<comment> \<open>A \<open>k\<close>-digit significand \<open>s\<close> with exponent \<open>p\<close> that reads back, if there is one.\<close>
  "shortest_at N D n0 k =
     (let p = n0 - k;
          lo = (N * 10 ^ nat (- p)) div (D * 10 ^ nat p);
          ok_lo = reads_back N D lo p;
          ok_hi = reads_back N D (lo + 1) p
      in if ok_lo \<and> ok_hi then Some (nearest_at N D p, p)
         else if ok_lo then Some (lo, p)
         else if ok_hi then Some (lo + 1, p)
         else None)"

fun first_some :: "('a \<Rightarrow> 'b option) \<Rightarrow> 'a list \<Rightarrow> 'b option" where
  "first_some f [] = None"
| "first_some f (x # xs) = (case f x of Some y \<Rightarrow> Some y | None \<Rightarrow> first_some f xs)"

definition shortest_digits :: "int \<Rightarrow> int \<Rightarrow> string \<times> int" where
  \<comment> \<open>The digits and the position \<open>n\<close> of the decimal point. Seventeen digits always read
      back; the seventeen-digit nearest value is also the default.\<close>
  "shortest_digits N D =
     (let n0 = decimal_point N D;
          sp = (case first_some (shortest_at N D n0)
                       [1, 2, 3, 4, 5, 6, 7, 8, 9, 10, 11, 12, 13, 14, 15, 16, 17] of
                  Some r \<Rightarrow> r
                | None \<Rightarrow> (nearest_at N D (n0 - 17), n0 - 17))
      in (rev (dropWhile (\<lambda>c. c = CHR ''0'') (rev (int_digits (fst sp)))),
          snd sp + declen (fst sp)))"

definition format_digits :: "string \<times> int \<Rightarrow> string" where
  "format_digits dn =
     (let ds = fst dn; n = snd dn; k = int (length ds)
      in if k \<le> n \<and> n \<le> 21 then ds @ replicate (nat (n - k)) (CHR ''0'')
         else if 0 < n \<and> n \<le> 21 then take (nat n) ds @ ''.'' @ drop (nat n) ds
         else if - 6 < n \<and> n \<le> 0 then ''0.'' @ replicate (nat (- n)) (CHR ''0'') @ ds
         else (let ex = (if 0 < n - 1 then ''+'' else ''-'') @ int_digits \<bar>n - 1\<bar>
               in if k = 1 then ds @ ''e'' @ ex
                  else take 1 ds @ ''.'' @ drop 1 ds @ ''e'' @ ex))"

fun js_toString :: "jsnum \<Rightarrow> string" where
  "js_toString NaN = ''NaN''"
| "js_toString (Inf s) = (if s then ''-Infinity'' else ''Infinity'')"
| "js_toString (Fin s m e) =
     (if m = 0 then ''0''
      else (if s then ''-'' else [])
           @ format_digits (shortest_digits (m * 2 ^ nat e) (2 ^ nat (- e))))"

fun js_toFixed :: "jsnum \<Rightarrow> nat \<Rightarrow> string" where
  \<comment> \<open>\<^verbatim>\<open>x.toFixed(f)\<close> for \<open>1 \<le> f \<le> 100\<close>.\<close>
  "js_toFixed NaN f = ''NaN''"
| "js_toFixed (Inf s) f = (if s then ''-Infinity'' else ''Infinity'')"
| "js_toFixed (Fin s m e) f =
     (let N = m * 2 ^ nat e; D = 2 ^ nat (- e)
      in if 10 ^ 21 * D \<le> N then js_toString (Fin s m e)
         else
           (let n = (2 * N * 10 ^ f + D) div (2 * D);
                ds = int_digits n;
                ds' = (if length ds \<le> f then replicate (f + 1 - length ds) (CHR ''0'') @ ds
                       else ds);
                k = length ds'
            in (if s \<and> m \<noteq> 0 then ''-'' else [])
               @ take (k - f) ds' @ ''.'' @ drop (k - f) ds'))"

subsection \<open>\<^verbatim>\<open>BigInt(string)\<close>\<close>







section \<open>The payment middleware (\<^verbatim>\<open>src/core/payment-middleware.ts\<close>)\<close>

subsection \<open>Configuration and results\<close>

text \<open>
  The fields of each record carry a short prefix of the record's name, since several
  TypeScript interfaces share field names (\<^verbatim>\<open>name\<close>, \<^verbatim>\<open>pricing\<close>, \<^verbatim>\<open>network\<close>, \<^verbatim>\<open>enabled\<close>).
  The payment part of the configuration types: \<^verbatim>\<open>ToolPricing\<close>, \<^verbatim>\<open>ApiKeyConfig\<close>, the
  \<^verbatim>\<open>payment\<close> field of \<^verbatim>\<open>GatewayConfig\<close> and the \<^verbatim>\<open>tools\<close> and \<^verbatim>\<open>defaultPricing\<close> fields of a
  server, with a field optional wherever the middleware guards it with \<^verbatim>\<open>?.\<close> or \<^verbatim>\<open>||\<close>.
  The amount of a result and the asset of a challenge are declared as strings; they are
  values here, because both can come out of a lookup with a computed key.
\<close>

type_synonym headers = "string \<rightharpoonup> string"

record ToolPricing =
  tp_free :: bool
  tp_x402 :: "string option"
  tp_apiKeyTiers :: "(string \<rightharpoonup> string) option"

record ApiKeyConfig =
  ak_key :: string
  ak_tier :: string

record ToolConfig =
  tc_name :: string
  tc_pricing :: "ToolPricing option"

datatype PaymentMode = passthrough | markup | absorb

record ServerConfig =
  sc_name :: string
  sc_tools :: "ToolConfig list option"
  sc_defaultPricing :: "ToolPricing option"
  sc_paymentMode :: "PaymentMode option"

record PaymentConfig =
  pc_enabled :: bool
  pc_recipient :: "string option"
  pc_network :: "string option"
  pc_facilitator :: "string option"
  pc_apiKeys :: "ApiKeyConfig list option"

record GatewayConfig =
  gc_payment :: "PaymentConfig option"
  gc_servers :: "ServerConfig list"

datatype PricingMethod = x402 | apiKey | free

record PaymentVerificationResult =
  vr_authorized :: bool
  vr_error :: "string option"
  vr_pricing :: "(jsval \<times> PricingMethod) option"

record AcceptsEntry =
  ae_scheme :: string
  ae_network :: string
  ae_maxAmountRequired :: string
  ae_resource :: string
  ae_description :: string
  ae_mimeType :: "string option"
  ae_payTo :: string
  ae_maxTimeoutSeconds :: int
  ae_asset :: jsval

record PaymentRequirements =
  pr_x402Version :: int
  pr_accepts :: "AcceptsEntry list"
  pr_error :: "string option"

subsection \<open>The facilitator and the payment header decoder\<close>

text \<open>
  \<^verbatim>\<open>verifyX402Payment\<close> decodes the payment header (\<^verbatim>\<open>JSON.parse\<close> of the base64 text) and
  posts to the facilitator with \<^verbatim>\<open>fetch\<close>. Both are the outside world: \<open>w_decode\<close> gives the
  decoded payload or the rendering of the exception thrown, \<open>w_fetch\<close> answers a request.
  Every function that may call the facilitator returns the list of requests it sent.
\<close>

record FacilitatorRequest =
  fr_url :: string
  fr_paymentPayload :: string
  fr_scheme :: string
  fr_network :: string
  fr_maxAmountRequired :: string
  fr_payTo :: "string option"
  fr_asset :: jsval

datatype FetchOutcome =
    FetchThrows string
      \<comment> \<open>\<^verbatim>\<open>fetch\<close> or \<^verbatim>\<open>response.json()\<close> or reading \<^verbatim>\<open>result.verified\<close> throws; the rendering
          of the exception\<close>
  | NotOk
      \<comment> \<open>\<^verbatim>\<open>response.ok\<close> is false\<close>
  | Verified bool
      \<comment> \<open>the body parsed; whether \<^verbatim>\<open>result.verified === true\<close>\<close>

record World =
  w_decode :: "string \<Rightarrow> string + string"
  w_fetch :: "FacilitatorRequest \<Rightarrow> FetchOutcome"

subsection \<open>The middleware\<close>

definition USDC_ADDRESSES :: "string \<rightharpoonup> string" where
  "USDC_ADDRESSES =
     [''base-sepolia'' \<mapsto> ''0x036CbD53842c5426634e7929541eC2318f3dCF7e'',
      ''base'' \<mapsto> ''0x833589fCD6eDb6E08f4c7C32D4f71b54bdA02913'',
      ''ethereum'' \<mapsto> ''0xA0b86991c6218b36c1d19D4a2e9Eb0cE3606eB48'',
      ''optimism'' \<mapsto> ''0x0b2C639c533813f4Aa9D7837CAf62653d097Ff85'',
      ''polygon'' \<mapsto> ''0x3c499c542cEF5E3811e1192ce70d8cC03d5c3359'']"

definition getUsdcAddress :: "string \<Rightarrow> jsval" where
  \<comment> \<open>\<^verbatim>\<open>USDC_ADDRESSES[network] || USDC_ADDRESSES['base-sepolia']!\<close>\<close>
  "getUsdcAddress net =
     (if truthy_val (js_get USDC_ADDRESSES net) then js_get USDC_ADDRESSES net
      else js_get USDC_ADDRESSES ''base-sepolia'')"

definition apiKeyCache :: "GatewayConfig \<Rightarrow> (string \<rightharpoonup> ApiKeyConfig)" where
  \<comment> \<open>The constructor's loop of \<^verbatim>\<open>Map.set\<close>: a later entry replaces an earlier one.\<close>
  "apiKeyCache cfg =
     (case gc_payment cfg of
        None \<Rightarrow> Map.empty
      | Some p \<Rightarrow>
          (case pc_apiKeys p of
             None \<Rightarrow> Map.empty
           | Some ks \<Rightarrow> foldl (\<lambda>m k. m(ak_key k \<mapsto> k)) Map.empty ks))"

definition payment_enabled :: "GatewayConfig \<Rightarrow> bool" where
  \<comment> \<open>\<^verbatim>\<open>this.config.payment?.enabled\<close>\<close>
  "payment_enabled cfg = (case gc_payment cfg of None \<Rightarrow> False | Some p \<Rightarrow> pc_enabled p)"

definition payment_network :: "GatewayConfig \<Rightarrow> string" where
  \<comment> \<open>\<^verbatim>\<open>this.config.payment?.network || 'base-sepolia'\<close>\<close>
  "payment_network cfg =
     or_default (case gc_payment cfg of None \<Rightarrow> None | Some p \<Rightarrow> pc_network p) ''base-sepolia''"

definition payment_recipient :: "GatewayConfig \<Rightarrow> string option" where
  \<comment> \<open>\<^verbatim>\<open>this.config.payment?.recipient\<close>\<close>
  "payment_recipient cfg = (case gc_payment cfg of None \<Rightarrow> None | Some p \<Rightarrow> pc_recipient p)"

definition getToolPricing :: "GatewayConfig \<Rightarrow> string \<Rightarrow> string \<Rightarrow> ToolPricing option" where
  "getToolPricing cfg toolName serverId =
     (case find (\<lambda>s. sc_name s = serverId) (gc_servers cfg) of
        None \<Rightarrow> None
      | Some serverConfig \<Rightarrow>
          (case (case sc_tools serverConfig of
                   None \<Rightarrow> None
                 | Some ts \<Rightarrow> find (\<lambda>t. tc_name t = toolName) ts) of
             None \<Rightarrow> sc_defaultPricing serverConfig
           | Some toolConfig \<Rightarrow>
               (case tc_pricing toolConfig of
                  Some p \<Rightarrow> Some p
                | None \<Rightarrow> sc_defaultPricing serverConfig)))"

definition parseAmountToAtomicUnits :: "string \<Rightarrow> string" where
  "parseAmountToAtomicUnits amount =
     (let cleanAmount = filter (\<lambda>c. is_digit c \<or> c = CHR ''.'') amount;
          val = js_parseFloat cleanAmount
      in if js_isNaN val then ''10000''
         else (let atomicUnits = js_floor (js_mul val (js_number 1000000))
               in js_toString atomicUnits))"

definition generatePaymentRequiredResponse ::
    "GatewayConfig \<Rightarrow> string \<Rightarrow> string \<Rightarrow> PaymentRequirements" where
  "generatePaymentRequiredResponse cfg toolName serverId =
     (let pricing\<^sub>0 = getToolPricing cfg toolName serverId;
          amount = or_default (case pricing\<^sub>0 of None \<Rightarrow> None | Some p \<Rightarrow> tp_x402 p) ''$0.01'';
          net = payment_network cfg
      in \<lparr> pr_x402Version = 1,
           pr_accepts =
             [\<lparr> ae_scheme = ''exact'',
                 ae_network = net,
                 ae_maxAmountRequired = parseAmountToAtomicUnits amount,
                 ae_resource = ''/tools/'' @ toolName,
                 ae_description = ''Payment for MCP tool: '' @ toolName,
                 ae_mimeType = Some ''application/json'',
                 ae_payTo = or_default (payment_recipient cfg) [],
                 ae_maxTimeoutSeconds = 30,
                 ae_asset = getUsdcAddress net \<rparr>],
           pr_error = Some (''Payment required for tool '' @ [CHR 0x27] @ toolName @ [CHR 0x27]
             @ ''. Amount: '' @ amount
             @ ''. Use X-PAYMENT header (x402) or X-ELIZA-API-KEY.'') \<rparr>)"

definition free_result :: PaymentVerificationResult where
  \<comment> \<open>\<^verbatim>\<open>{ authorized: true, pricing: { amount: '0', method: 'free' } }\<close>\<close>
  "free_result =
     \<lparr> vr_authorized = True, vr_error = None, vr_pricing = Some (Str ''0'', free) \<rparr>"

definition unauthorized :: "string option \<Rightarrow> PaymentVerificationResult" where
  \<comment> \<open>\<^verbatim>\<open>{ authorized: false }\<close> with or without \<^verbatim>\<open>error\<close>\<close>
  "unauthorized e = \<lparr> vr_authorized = False, vr_error = e, vr_pricing = None \<rparr>"

definition apiKeyHeader :: "headers \<Rightarrow> string option" where
  \<comment> \<open>The \<^verbatim>\<open>||\<close> chain that reads the API key in \<^verbatim>\<open>verifyApiKey\<close>.\<close>
  "apiKeyHeader h =
     or_else (h ''x-eliza-api-key'')
       (or_else (h ''X-ELIZA-API-KEY'')
          (or_else (map_option (replace_first ''Bearer '' []) (h ''authorization''))
             (map_option (replace_first ''Bearer '' []) (h ''Authorization''))))"

definition verifyApiKey ::
    "GatewayConfig \<Rightarrow> headers option \<Rightarrow> ToolPricing option \<Rightarrow> PaymentVerificationResult" where
  "verifyApiKey cfg hdrs pricing\<^sub>0 =
     (case (hdrs, pricing\<^sub>0) of
        (Some h, Some p) \<Rightarrow>
          (let k = apiKeyHeader h
           in if \<not> truthy k then unauthorized None
              else
                (case apiKeyCache cfg (the k) of
                   None \<Rightarrow> unauthorized (Some ''Invalid API key'')
                 | Some keyConfig \<Rightarrow>
                     (let tierPrice = (case tp_apiKeyTiers p of
                                         None \<Rightarrow> Undefined
                                       | Some tiers \<Rightarrow> js_get tiers (ak_tier keyConfig))
                      in if tierPrice = Str ''free'' \<or> tierPrice = Str ''$0.00''
                            \<or> tierPrice = Str ''$0''
                         then \<lparr> vr_authorized = True, vr_error = None,
                                vr_pricing = Some (Str ''0'', apiKey) \<rparr>
                         else if truthy_val tierPrice
                         then \<lparr> vr_authorized = True, vr_error = None,
                                vr_pricing = Some (tierPrice, apiKey) \<rparr>
                         else unauthorized None)))
      | _ \<Rightarrow> unauthorized None)"

definition paymentHeader :: "headers \<Rightarrow> string option" where
  \<comment> \<open>\<^verbatim>\<open>headers['x-payment'] || headers['X-PAYMENT']\<close>\<close>
  "paymentHeader h = or_else (h ''x-payment'') (h ''X-PAYMENT'')"

definition verifyX402Payment ::
    "World \<Rightarrow> GatewayConfig \<Rightarrow> headers option \<Rightarrow> ToolPricing option
       \<Rightarrow> PaymentVerificationResult \<times> FacilitatorRequest list" where
  "verifyX402Payment w cfg hdrs pricing\<^sub>0 =
     (case (hdrs, pricing\<^sub>0) of
        (Some h, Some p) \<Rightarrow>
          if \<not> truthy (tp_x402 p) then (unauthorized None, [])
          else if \<not> truthy (paymentHeader h) then (unauthorized None, [])
          else
            (case w_decode w (the (paymentHeader h)) of
               Inl exn \<Rightarrow> (unauthorized (Some (''Payment verification error: '' @ exn)), [])
             | Inr paymentData \<Rightarrow>
                 (let expectedAmount = parseAmountToAtomicUnits (the (tp_x402 p));
                      facilitatorUrl =
                        or_default (case gc_payment cfg of None \<Rightarrow> None
                                    | Some pc \<Rightarrow> pc_facilitator pc)
                          ''https://x402.org/facilitator'';
                      req = \<lparr> fr_url = facilitatorUrl @ ''/verify'',
                              fr_paymentPayload = paymentData,
                              fr_scheme = ''exact'',
                              fr_network = payment_network cfg,
                              fr_maxAmountRequired = expectedAmount,
                              fr_payTo = payment_recipient cfg,
                              fr_asset = getUsdcAddress (payment_network cfg) \<rparr>
                  in (case w_fetch w req of
                        FetchThrows exn \<Rightarrow>
                          (unauthorized (Some (''Payment verification error: '' @ exn)), [req])
                      | NotOk \<Rightarrow>
                          (unauthorized (Some ''Payment verification failed''), [req])
                      | Verified v \<Rightarrow>
                          if v then (\<lparr> vr_authorized = True, vr_error = None,
                                        vr_pricing = Some (Str (the (tp_x402 p)), x402) \<rparr>, [req])
                          else (unauthorized (Some ''Payment verification failed''), [req]))))
      | _ \<Rightarrow> (unauthorized None, []))"

definition verifyPayment ::
    "World \<Rightarrow> GatewayConfig \<Rightarrow> string \<Rightarrow> string \<Rightarrow> headers option
       \<Rightarrow> PaymentVerificationResult \<times> FacilitatorRequest list" where
  "verifyPayment w cfg toolName serverId hdrs =
     (if \<not> payment_enabled cfg then (free_result, [])
      else
        (case getToolPricing cfg toolName serverId of
           None \<Rightarrow> (free_result, [])
         | Some p \<Rightarrow>
             if tp_free p then (free_result, [])
             else
               (let apiKeyResult = verifyApiKey cfg hdrs (Some p)
                in if vr_authorized apiKeyResult then (apiKeyResult, [])
                   else
                     (let x402Result = verifyX402Payment w cfg hdrs (Some p)
                      in if vr_authorized (fst x402Result) then x402Result
                         else
                           (let amount = or_default (tp_x402 p) ''$0.01''
                            in (\<lparr> vr_authorized = False,
                                   vr_error = Some (''Payment required: '' @ amount
                                     @ ''. Provide X-PAYMENT header (x402) or X-ELIZA-API-KEY.''),
                                   vr_pricing = Some (Str amount, x402) \<rparr>,
                                snd x402Result))))))"

definition calculateMarkup :: "string \<Rightarrow> string \<Rightarrow> string" where
  "calculateMarkup downstreamPrice mk =
     (let downstreamValue =
            js_parseFloat (filter (\<lambda>c. is_digit c \<or> c = CHR ''.'') downstreamPrice)
      in if CHR ''%'' \<in> set mk then
           (let percentage = js_parseFloat (replace_first ''%'' [] mk);
                markupValue = js_mul downstreamValue (js_div percentage (js_number 100))
            in ''$'' @ js_toFixed (js_add downstreamValue markupValue) 6)
         else
           (let markupValue = js_parseFloat (filter (\<lambda>c. is_digit c \<or> c = CHR ''.'') mk)
            in ''$'' @ js_toFixed (js_add downstreamValue markupValue) 6))"


subsection \<open>Header names that differ only in letter case\<close>



section \<open>The gateway front end (\<^verbatim>\<open>src/core/gateway.ts\<close>)\<close>

text \<open>
  The \<^verbatim>\<open>CallTool\<close> handler. The registry and the server manager are other modules: the
  handler sees them as the two lookups \<^verbatim>\<open>findTool\<close> and \<^verbatim>\<open>getConnection\<close>. A client is its
  \<^verbatim>\<open>callTool\<close> method, which returns a response or throws; \<open>Inl\<close> carries the rendering
  \<^verbatim>\<open>${error}\<close> of what was thrown. An \<open>McpError\<close> is the pair of arguments given to the
  constructor of the SDK's error class.
\<close>

datatype ErrorCode = MethodNotFound | InternalError

record McpError =
  me_code :: ErrorCode
  me_message :: string

datatype ConnectionStatus = connecting | connected | disconnected | failed
  \<comment> \<open>\<open>failed\<close> is the status \<^verbatim>\<open>'error'\<close>\<close>

type_synonym tool_args = "(string \<times> string) list"

record AggregatedTool =
  at_name :: string
  at_originalName :: string
  at_serverId :: string
  at_namespace :: "string option"
  at_description :: "string option"

record 'r ServerConnection =
  cn_status :: ConnectionStatus
  cn_client :: "(string \<Rightarrow> tool_args \<Rightarrow> string + 'r) option"

definition null_client_error :: string where
  \<comment> \<open>The rendering of the \<^verbatim>\<open>TypeError\<close> of calling a method on a \<^verbatim>\<open>null\<close> client.\<close>
  "null_client_error =
     ''TypeError: Cannot read properties of null (reading '' @ [CHR 0x27] @ ''callTool''
       @ [CHR 0x27] @ '')''"

definition callToolHandler ::
    "(string \<rightharpoonup> AggregatedTool) \<Rightarrow> (string \<rightharpoonup> 'r ServerConnection)
       \<Rightarrow> string \<Rightarrow> tool_args option \<Rightarrow> McpError + 'r" where
  "callToolHandler findTool getConnection name args =
     (case findTool name of
        None \<Rightarrow>
          Inl \<lparr> me_code = MethodNotFound,
                me_message = ''Tool '' @ [CHR 0x27] @ name @ [CHR 0x27] @ '' not found'' \<rparr>
      | Some tool \<Rightarrow>
          (case getConnection (at_serverId tool) of
             None \<Rightarrow>
               Inl \<lparr> me_code = InternalError,
                     me_message = ''Server '' @ [CHR 0x27] @ at_serverId tool @ [CHR 0x27]
                       @ '' is not connected'' \<rparr>
           | Some connection \<Rightarrow>
               if cn_status connection \<noteq> connected then
                 Inl \<lparr> me_code = InternalError,
                       me_message = ''Server '' @ [CHR 0x27] @ at_serverId tool @ [CHR 0x27]
                         @ '' is not connected'' \<rparr>
               else
                 (case (case cn_client connection of
                          None \<Rightarrow> Inl null_client_error
                        | Some callTool \<Rightarrow>
                            callTool (at_originalName tool)
                              (case args of None \<Rightarrow> [] | Some a \<Rightarrow> a)) of
                    Inr response \<Rightarrow> Inr response
                  | Inl err \<Rightarrow>
                      Inl \<lparr> me_code = InternalError,
                            me_message = ''Tool execution failed: '' @ err \<rparr>)))"

section \<open>The HTTP wrapper (\<^verbatim>\<open>src/transports/http-wrapper.ts\<close>)\<close>

text \<open>
  The wrapper that serves \<^verbatim>\<open>POST /message\<close> and \<^verbatim>\<open>GET /sse\<close> is not among the sources. What
  it answers to a payment challenge is taken from the specification; the challenge itself
  is the \<^verbatim>\<open>PaymentRequirements\<close> of the middleware. A body is the value given to
  \<^verbatim>\<open>JSON.stringify\<close>, which leaves out a member whose value is a function; the serializer is
  a parameter.
\<close>

datatype json = JString string | JBool bool | JNumber int | JObject "(string \<times> json) list"
  | JArray "json list"

record HttpResponse =
  hr_status :: nat
  hr_headers :: "(string \<times> string) list"
  hr_body :: "json option"

definition json_member :: "string \<Rightarrow> jsval \<Rightarrow> (string \<times> json) list" where
  \<comment> \<open>A member of an object literal as \<^verbatim>\<open>JSON.stringify\<close> sees it.\<close>
  "json_member k v =
     (case v of
        Str s \<Rightarrow> [(k, JString s)]
      | Member m \<Rightarrow> if m = ''__proto__'' then [(k, JObject [])] else []
      | Undefined \<Rightarrow> [])"

definition json_of_requirements :: "PaymentRequirements \<Rightarrow> json" where
  \<comment> \<open>A \<^verbatim>\<open>PaymentRequirements\<close> object as a JSON value, field by field.\<close>
  "json_of_requirements r =
     JObject
       ([(''x402Version'', JNumber (pr_x402Version r)),
         (''accepts'', JArray (map (\<lambda>a. JObject
            ([(''scheme'', JString (ae_scheme a)),
              (''network'', JString (ae_network a)),
              (''maxAmountRequired'', JString (ae_maxAmountRequired a)),
              (''resource'', JString (ae_resource a)),
              (''description'', JString (ae_description a))]
             @ (case ae_mimeType a of None \<Rightarrow> [] | Some m \<Rightarrow> [(''mimeType'', JString m)])
             @ [(''payTo'', JString (ae_payTo a)),
                (''maxTimeoutSeconds'', JNumber (ae_maxTimeoutSeconds a))]
             @ json_member ''asset'' (ae_asset a))) (pr_accepts r)))]
        @ (case pr_error r of None \<Rightarrow> [] | Some e \<Rightarrow> [(''error'', JString e)]))"

definition json_field :: "json \<Rightarrow> string \<Rightarrow> json option" where
  \<comment> \<open>The member of a JSON object under a key.\<close>
  "json_field j k = (case j of JObject kvs \<Rightarrow> map_of kvs k | _ \<Rightarrow> None)"

definition http_wrapper_challenge :: "(json \<Rightarrow> string) \<Rightarrow> PaymentRequirements \<Rightarrow> HttpResponse" where
  \<comment> \<open>Modelled from the spec: the response of the HTTP wrapper
      (\<^verbatim>\<open>src/transports/http-wrapper.ts\<close>, missing from the sources) to a payment challenge.
      Section 4.5.4: respond \<^verbatim>\<open>HTTP/1.1 402 Payment Required\<close> with
      \<^verbatim>\<open>Content-Type: application/json\<close>, \<^verbatim>\<open>X-Accept-Payment:\<close> set to the serialized
      requirements, and the \<^verbatim>\<open>PaymentRequirements\<close> as the body.\<close>
  "http_wrapper_challenge serialize reqs =
     \<lparr> hr_status = 402,
       hr_headers = [(''Content-Type'', ''application/json''),
                     (''X-Accept-Payment'', serialize (json_of_requirements reqs))],
       hr_body = Some (json_of_requirements reqs) \<rparr>"

section \<open>The paywall guard (\<^verbatim>\<open>src/paywall-guard.ts\<close>)\<close>

subsection \<open>Prices\<close>




datatype Kind = tool | resource | prompt




subsection \<open>Sessions\<close>

text \<open>
  The guard keeps its sessions in a \<^verbatim>\<open>Map\<close> from session id to session object. A session
  object is created by \<^verbatim>\<open>recordAuthorization\<close> for one id and stored under that id only, so
  no two ids share an object and the map from ids to session values is the whole state.
  Amounts are \<^verbatim>\<open>bigint\<close>, that is \<^typ>\<open>int\<close>. Time is the number of milliseconds since the
  epoch.
\<close>

record VerifiedPaymentReceipt =
  rc_paymentId :: string
  rc_amount :: int
  rc_network :: string
  rc_recipient :: string
  rc_timestamp :: int
  rc_txHash :: "string option"

record PaywallSession =
  ps_sessionId :: string
  ps_authorizedAmount :: int
  ps_remainingBalance :: int
  ps_receipts :: "VerifiedPaymentReceipt list"
  ps_expiresAt :: int

type_synonym sessions = "string \<rightharpoonup> PaywallSession"

definition deductFromSession :: "sessions \<Rightarrow> string \<Rightarrow> int \<Rightarrow> bool \<times> sessions" where
  "deductFromSession ss sessionId amount =
     (if amount \<le> 0 then (True, ss)
      else
        (case ss sessionId of
           None \<Rightarrow> (False, ss)
         | Some session \<Rightarrow>
             if ps_remainingBalance session < amount then (False, ss)
             else (True, ss(sessionId \<mapsto>
                     session \<lparr> ps_remainingBalance := ps_remainingBalance session - amount \<rparr>))))"

definition balance_of :: "sessions \<Rightarrow> string \<Rightarrow> int option" where
  \<comment> \<open>The remaining balance of a session, if the session exists.\<close>
  "balance_of ss sid = map_option ps_remainingBalance (ss sid)"

section \<open>Example configurations\<close>

text \<open>
  A gateway with one paid tool, one tool marked free, three API keys and no default
  pricing; a facilitator that rejects every payment; configurations with a price of
  \<^verbatim>\<open>$2.01\<close>, with a network and with a tier named \<^verbatim>\<open>constructor\<close>; the paywall
  configuration and the session of the unit tests in \<^verbatim>\<open>tests/unit-paywall.ts\<close>.
\<close>

definition example_pricing :: ToolPricing where
  "example_pricing =
     \<lparr> tp_free = False, tp_x402 = Some ''$0.10'',
       tp_apiKeyTiers = Some [''premium'' \<mapsto> ''free'', ''basic'' \<mapsto> ''$0.05''] \<rparr>"

definition example_server :: ServerConfig where
  "example_server =
     \<lparr> sc_name = ''crypto'',
       sc_tools = Some [\<lparr> tc_name = ''price'', tc_pricing = Some example_pricing \<rparr>,
                        \<lparr> tc_name = ''ping'',
                          tc_pricing = Some \<lparr> tp_free = True, tp_x402 = None,
                                              tp_apiKeyTiers = None \<rparr> \<rparr>],
       sc_defaultPricing = None,
       sc_paymentMode = None \<rparr>"

definition example_keys :: "ApiKeyConfig list" where
  "example_keys =
     [\<lparr> ak_key = ''K'', ak_tier = ''premium'' \<rparr>,
      \<lparr> ak_key = ''B'', ak_tier = ''basic'' \<rparr>,
      \<lparr> ak_key = ''N'', ak_tier = ''trial'' \<rparr>]"

definition example_payment :: PaymentConfig where
  "example_payment =
     \<lparr> pc_enabled = True, pc_recipient = Some ''0xAB01'', pc_network = Some ''base-sepolia'',
       pc_facilitator = None, pc_apiKeys = Some example_keys \<rparr>"

definition example_config :: GatewayConfig where
  "example_config = \<lparr> gc_payment = Some example_payment, gc_servers = [example_server] \<rparr>"

definition disabled_config :: GatewayConfig where
  "disabled_config =
     \<lparr> gc_payment = Some (example_payment \<lparr> pc_enabled := False \<rparr>),
       gc_servers = [example_server] \<rparr>"

definition rejecting_world :: World where
  "rejecting_world = \<lparr> w_decode = Inr, w_fetch = (\<lambda>r. Verified False) \<rparr>"

definition premium_key_headers :: headers where
  "premium_key_headers = [''X-ELIZA-API-KEY'' \<mapsto> ''K'']"

definition basic_key_headers :: headers where
  "basic_key_headers = [''authorization'' \<mapsto> ''Bearer B'']"

definition trial_key_headers :: headers where
  "trial_key_headers = [''x-eliza-api-key'' \<mapsto> ''N'']"


definition example_registry :: "string \<rightharpoonup> AggregatedTool" where
  "example_registry =
     [''fs:ls'' \<mapsto> \<lparr> at_name = ''fs:ls'', at_originalName = ''ls'', at_serverId = ''files'',
                        at_namespace = Some ''fs'', at_description = None \<rparr>,
      ''echo'' \<mapsto> \<lparr> at_name = ''echo'', at_originalName = ''echo'', at_serverId = ''tools'',
                       at_namespace = None, at_description = None \<rparr>]"

definition failing_client :: "string \<Rightarrow> tool_args \<Rightarrow> string + string" where
  "failing_client name args = Inl ''Error: boom''"

definition example_connections :: "string \<rightharpoonup> string ServerConnection" where
  "example_connections =
     [''files'' \<mapsto> \<lparr> cn_status = disconnected, cn_client = None \<rparr>,
      ''tools'' \<mapsto> \<lparr> cn_status = connected, cn_client = Some failing_client \<rparr>]"

definition two_dollar_config :: GatewayConfig where
  "two_dollar_config =
     \<lparr> gc_payment = Some example_payment,
       gc_servers =
         [\<lparr> sc_name = ''shop'',
             sc_tools = Some [\<lparr> tc_name = ''report'',
                                tc_pricing = Some \<lparr> tp_free = False, tp_x402 = Some ''$2.01'',
                                                    tp_apiKeyTiers = None \<rparr> \<rparr>],
             sc_defaultPricing = None,
             sc_paymentMode = None \<rparr>] \<rparr>"

definition inherited_network_config :: GatewayConfig where
  "inherited_network_config =
     \<lparr> gc_payment = Some (example_payment \<lparr> pc_network := Some ''constructor'' \<rparr>),
       gc_servers = [example_server] \<rparr>"

definition inherited_tier_config :: GatewayConfig where
  "inherited_tier_config =
     \<lparr> gc_payment = Some (example_payment
         \<lparr> pc_apiKeys := Some [\<lparr> ak_key = ''K'', ak_tier = ''constructor'' \<rparr>] \<rparr>),
       gc_servers = [example_server] \<rparr>"

definition kind_serializer :: "json \<Rightarrow> string" where
  \<comment> \<open>A stand-in for a serializer in examples: it names the kind of value.\<close>
  "kind_serializer j =
     (case j of JObject kvs \<Rightarrow> ''object'' | JArray js \<Rightarrow> ''array'' | _ \<Rightarrow> ''scalar'')"




definition balance_session :: PaywallSession where
  "balance_session =
     \<lparr> ps_sessionId = ''balance-test'', ps_authorizedAmount = 10000,
       ps_remainingBalance = 10000,
       ps_receipts = [\<lparr> rc_paymentId = ''balance-payment'', rc_amount = 10000,
                         rc_network = ''base-sepolia'', rc_recipient = ''test-recipient'',
                         rc_timestamp = 0, rc_txHash = Some ''0xbalance'' \<rparr>],
       ps_expiresAt = 86400000 \<rparr>"

definition example_sessions :: sessions where
  "example_sessions = [''balance-test'' \<mapsto> balance_session]"

section \<open>Evaluating the number model\<close>

text \<open>
  The simplifier evaluates the model on numerals with these rules; \<open>bitlen\<close> follows the
  binary digits of its argument.
\<close>

lemma bitlen_Bit0: "bitlen (numeral (Num.Bit0 k)) = bitlen (numeral k) + 1"
  by (subst compute_bitlen) simp

lemma bitlen_Bit1: "bitlen (numeral (Num.Bit1 k)) = bitlen (numeral k) + 1"
  by (subst compute_bitlen) simp

lemma bitlen_One: "bitlen 1 = 1"
  by (subst compute_bitlen) simp

lemma replicate_numeral_eval: "replicate (numeral k) x = x # replicate (pred_numeral k) x"
  by (simp add: numeral_eq_Suc)

lemmas js_eval = round_ratio_def ilog2_ratio_def Let_def bitlen_Bit0 bitlen_Bit1 bitlen_One
  js_number_def is_digit_def digit_val_def digits_val_def is_js_space_def digits_of.simps
  int_digits_def js_isNaN_def decimal_value_def parse_exponent_def parse_unsigned_def
  js_parseFloat_def declen_def decimal_point_def nearest_at_def reads_back_def shortest_at_def
  shortest_digits_def format_digits_def replicate_numeral_eval

lemma atomic_of_one_cent: "parseAmountToAtomicUnits ''$0.01'' = ''10000''"
  by (simp add: parseAmountToAtomicUnits_def js_eval cong: let_weak_cong)

lemma atomic_of_empty: "parseAmountToAtomicUnits [] = ''10000''"
  by (simp add: parseAmountToAtomicUnits_def js_eval cong: let_weak_cong)

lemma atomic_of_ten_cents: "parseAmountToAtomicUnits ''$0.10'' = ''100000''"
  by (simp add: parseAmountToAtomicUnits_def js_eval cong: let_weak_cong)

lemma atomic_of_two_dollars_one: "parseAmountToAtomicUnits ''$2.01'' = ''2009999''"
  by (simp add: parseAmountToAtomicUnits_def js_eval cong: let_weak_cong)

section \<open>The payment challenge\<close>

lemma getUsdcAddress_known:
  "USDC_ADDRESSES net = Some a \<Longrightarrow> getUsdcAddress net = Str a"
  by (auto simp: getUsdcAddress_def js_get_def truthy_val_def USDC_ADDRESSES_def
      split: if_splits)

lemma getUsdcAddress_unknown:
  "USDC_ADDRESSES net = None \<Longrightarrow> net \<notin> set object_prototype_members
     \<Longrightarrow> getUsdcAddress net = Str ''0x036CbD53842c5426634e7929541eC2318f3dCF7e''"
  by (simp add: getUsdcAddress_def js_get_def truthy_val_def) (simp add: USDC_ADDRESSES_def)

lemma getUsdcAddress_inherited:
  "USDC_ADDRESSES net = None \<Longrightarrow> net \<in> set object_prototype_members
     \<Longrightarrow> getUsdcAddress net = Member net"
  by (simp add: getUsdcAddress_def js_get_def truthy_val_def)

text \<open>
  The response has version 1 and a single entry. Its amount is whatever
  \<^verbatim>\<open>parseAmountToAtomicUnits\<close> makes of the price, and its asset whatever the lookup in the
  address table gives.
\<close>

lemma generatePaymentRequiredResponse_entry:
  "pr_x402Version (generatePaymentRequiredResponse cfg toolName serverId) = 1
   \<and> pr_accepts (generatePaymentRequiredResponse cfg toolName serverId) =
        [\<lparr> ae_scheme = ''exact'',
            ae_network = payment_network cfg,
            ae_maxAmountRequired = parseAmountToAtomicUnits
              (or_default (case getToolPricing cfg toolName serverId of
                             None \<Rightarrow> None | Some p \<Rightarrow> tp_x402 p) ''$0.01''),
            ae_resource = ''/tools/'' @ toolName,
            ae_description = ''Payment for MCP tool: '' @ toolName,
            ae_mimeType = Some ''application/json'',
            ae_payTo = or_default (payment_recipient cfg) [],
            ae_maxTimeoutSeconds = 30,
            ae_asset = getUsdcAddress (payment_network cfg) \<rparr>]"
  by (simp add: generatePaymentRequiredResponse_def Let_def)

text \<open>
  Claim C1 fails on the code in two places. The challenge for a tool priced \<^verbatim>\<open>$2.01\<close> asks
  for 2009999 atomic units, one less than \<open>\<lfloor>2.01 \<times> 10\<^sup>6\<rfloor> = 2010000\<close>: the amount goes
  through the floating-point product of \<^verbatim>\<open>parseAmountToAtomicUnits\<close>. And for a configured
  network named \<^verbatim>\<open>constructor\<close>, which is not in the address table, the asset is not the
  base-sepolia address but the member \<^verbatim>\<open>constructor\<close> that the table inherits. Every other
  field of the first challenge is as the claim says.
\<close>

theorem generatePaymentRequiredResponse_amount_one_unit_low:
  "pr_x402Version (generatePaymentRequiredResponse two_dollar_config ''report'' ''shop'') = 1
   \<and> pr_accepts (generatePaymentRequiredResponse two_dollar_config ''report'' ''shop'') =
        [\<lparr> ae_scheme = ''exact'',
            ae_network = ''base-sepolia'',
            ae_maxAmountRequired = ''2009999'',
            ae_resource = ''/tools/report'',
            ae_description = ''Payment for MCP tool: report'',
            ae_mimeType = Some ''application/json'',
            ae_payTo = ''0xAB01'',
            ae_maxTimeoutSeconds = 30,
            ae_asset = Str ''0x036CbD53842c5426634e7929541eC2318f3dCF7e'' \<rparr>]
   \<and> int_digits ((201 * 10 ^ 6) div 100) = ''2010000''
   \<and> USDC_ADDRESSES ''constructor'' = None
   \<and> map ae_asset
        (pr_accepts (generatePaymentRequiredResponse inherited_network_config ''price'' ''crypto''))
       = [Member ''constructor'']"
proof -
  have price: "or_default (case getToolPricing two_dollar_config ''report'' ''shop'' of
                             None \<Rightarrow> None | Some p \<Rightarrow> tp_x402 p) ''$0.01'' = ''$2.01''"
    by (simp add: getToolPricing_def two_dollar_config_def or_default_def)
  have net: "payment_network two_dollar_config = ''base-sepolia''"
    and rcp: "or_default (payment_recipient two_dollar_config) [] = ''0xAB01''"
    by (simp_all add: payment_network_def payment_recipient_def two_dollar_config_def
        example_payment_def or_default_def)
  have known: "USDC_ADDRESSES ''base-sepolia'' = Some ''0x036CbD53842c5426634e7929541eC2318f3dCF7e''"
    and unknown: "USDC_ADDRESSES ''constructor'' = None"
    by (simp_all add: USDC_ADDRESSES_def)
  have exact: "int_digits ((201 * 10 ^ 6) div 100) = ''2010000''"
    by (simp add: int_digits_def digits_of.simps)
  have net': "payment_network inherited_network_config = ''constructor''"
    by (simp add: payment_network_def inherited_network_config_def example_payment_def
        or_default_def)
  have inherited: "getUsdcAddress ''constructor'' = Member ''constructor''"
    using unknown by (rule getUsdcAddress_inherited) (simp add: object_prototype_members_def)
  have first: "pr_x402Version (generatePaymentRequiredResponse two_dollar_config ''report'' ''shop'') = 1
   \<and> pr_accepts (generatePaymentRequiredResponse two_dollar_config ''report'' ''shop'') =
        [\<lparr> ae_scheme = ''exact'',
            ae_network = ''base-sepolia'',
            ae_maxAmountRequired = ''2009999'',
            ae_resource = ''/tools/report'',
            ae_description = ''Payment for MCP tool: report'',
            ae_mimeType = Some ''application/json'',
            ae_payTo = ''0xAB01'',
            ae_maxTimeoutSeconds = 30,
            ae_asset = Str ''0x036CbD53842c5426634e7929541eC2318f3dCF7e'' \<rparr>]"
    using generatePaymentRequiredResponse_entry [of two_dollar_config "''report''" "''shop''"]
    by (simp add: price net rcp atomic_of_two_dollars_one getUsdcAddress_known [OF known])
  have second: "map ae_asset
        (pr_accepts (generatePaymentRequiredResponse inherited_network_config ''price'' ''crypto''))
       = [Member ''constructor'']"
    using generatePaymentRequiredResponse_entry
      [of inherited_network_config "''price''" "''crypto''"]
    by (simp add: net' inherited)
  from first exact unknown second show ?thesis
    by blast
qed

section \<open>Dollar amounts in binary floating point\<close>

text \<open>
  Claim C4. \<^verbatim>\<open>parseAmountToAtomicUnits\<close> multiplies in binary floating point and then
  takes the floor. The double nearest to 2.01 is below 2.01 and its product with
  \<open>10\<^sup>6\<close> rounds to a double below 2010000, so the price \<^verbatim>\<open>$2.01\<close> becomes 2009999 atomic
  units where \<open>\<lfloor>2.01 \<times> 10\<^sup>6\<rfloor>\<close> over the rationals is 2010000.
\<close>

theorem parseAmountToAtomicUnits_loses_a_unit:
  "parseAmountToAtomicUnits ''$2.01'' = ''2009999''
   \<and> int_digits ((201 * 10 ^ 6) div 100) = ''2010000''"
  by (simp add: parseAmountToAtomicUnits_def js_eval cong: let_weak_cong)

text \<open>The two computations of scenario S5 come out as the specification says.\<close>

lemma calculateMarkup_percent_example: "calculateMarkup ''$0.10'' ''20%'' = ''$0.120000''"
  by (simp add: calculateMarkup_def js_eval cong: let_weak_cong)

lemma calculateMarkup_fixed_example: "calculateMarkup ''$0.10'' ''$0.05'' = ''$0.150000''"
  by (simp add: calculateMarkup_def js_eval cong: let_weak_cong)

text \<open>
  Claim C5. \<^verbatim>\<open>calculateMarkup\<close> adds the markup in binary floating point and prints the
  sum with \<^verbatim>\<open>toFixed(6)\<close>. For the price \<^verbatim>\<open>$0.000009\<close> and the markup \<^verbatim>\<open>50%\<close> the exact
  result is 0.0000135, which rounds to 0.000014 at six decimals (half up and half even
  alike); the double the code computes lies below 0.0000135 and prints as 0.000013.
\<close>

theorem calculateMarkup_rounds_down_at_half:
  "calculateMarkup ''$0.000009'' ''50%'' = ''$0.000013''"
  by (simp add: calculateMarkup_def js_eval cong: let_weak_cong)

section \<open>Admission without payment\<close>

lemmas example_defs = example_config_def disabled_config_def example_payment_def
  example_server_def example_pricing_def example_keys_def

lemma getToolPricing_None:
  assumes "\<forall>s. find (\<lambda>s. sc_name s = serverId) (gc_servers cfg) = Some s \<longrightarrow>
             sc_defaultPricing s = None \<and>
             (\<forall>ts. sc_tools s = Some ts \<longrightarrow>
                (\<forall>t \<in> set ts. tc_name t = toolName \<longrightarrow> tc_pricing t = None))"
  shows "getToolPricing cfg toolName serverId = None"
proof (cases "find (\<lambda>s. sc_name s = serverId) (gc_servers cfg)")
  case None
  then show ?thesis by (simp add: getToolPricing_def)
next
  case (Some s)
  with assms have dflt: "sc_defaultPricing s = None"
    and tools: "\<And>ts t. sc_tools s = Some ts \<Longrightarrow> t \<in> set ts \<Longrightarrow> tc_name t = toolName
                  \<Longrightarrow> tc_pricing t = None"
    by auto
  show ?thesis
  proof (cases "sc_tools s")
    case None
    with Some dflt show ?thesis by (simp add: getToolPricing_def)
  next
    case ts: (Some ts)
    show ?thesis
    proof (cases "find (\<lambda>t. tc_name t = toolName) ts")
      case None
      with Some ts dflt show ?thesis by (simp add: getToolPricing_def)
    next
      case t: (Some t)
      then have "t \<in> set ts" and "tc_name t = toolName"
        by (auto simp: find_Some_iff)
      with tools [OF ts] have "tc_pricing t = None" by simp
      with Some ts t dflt show ?thesis by (simp add: getToolPricing_def)
    qed
  qed
qed

text \<open>
  Claim C2. \<^verbatim>\<open>verifyPayment\<close> returns \<^verbatim>\<open>authorized = true\<close> with method \<^verbatim>\<open>free\<close> and amount
  \<^verbatim>\<open>0\<close>, and sends nothing to the facilitator, whenever the payment policy is disabled, or
  no pricing resolves for the tool (the server, if it is configured at all, has no
  \<^verbatim>\<open>defaultPricing\<close> and no entry of its \<^verbatim>\<open>tools\<close> with the tool's name carries a pricing),
  or the resolved pricing has \<^verbatim>\<open>free = true\<close>.
\<close>

theorem verifyPayment_free:
  assumes "\<not> payment_enabled cfg
     \<or> (\<forall>s. find (\<lambda>s. sc_name s = serverId) (gc_servers cfg) = Some s \<longrightarrow>
             sc_defaultPricing s = None \<and>
             (\<forall>ts. sc_tools s = Some ts \<longrightarrow>
                (\<forall>t \<in> set ts. tc_name t = toolName \<longrightarrow> tc_pricing t = None)))
     \<or> (\<exists>p. getToolPricing cfg toolName serverId = Some p \<and> tp_free p)"
  shows "verifyPayment w cfg toolName serverId hdrs =
           (\<lparr> vr_authorized = True, vr_error = None, vr_pricing = Some (Str ''0'', free) \<rparr>, [])"
  using assms
proof (elim disjE exE conjE)
  assume "\<not> payment_enabled cfg"
  then show ?thesis by (simp add: verifyPayment_def free_result_def)
next
  assume "\<forall>s. find (\<lambda>s. sc_name s = serverId) (gc_servers cfg) = Some s \<longrightarrow>
             sc_defaultPricing s = None \<and>
             (\<forall>ts. sc_tools s = Some ts \<longrightarrow>
                (\<forall>t \<in> set ts. tc_name t = toolName \<longrightarrow> tc_pricing t = None))"
  then have "getToolPricing cfg toolName serverId = None"
    by (rule getToolPricing_None)
  then show ?thesis by (simp add: verifyPayment_def free_result_def)
next
  fix p
  assume "getToolPricing cfg toolName serverId = Some p" and "tp_free p"
  then show ?thesis by (simp add: verifyPayment_def free_result_def)
qed

theorem verifyPayment_free_witness:
  "\<not> payment_enabled disabled_config
   \<and> verifyPayment rejecting_world disabled_config ''price'' ''crypto'' None =
       (\<lparr> vr_authorized = True, vr_error = None, vr_pricing = Some (Str ''0'', free) \<rparr>, [])
   \<and> getToolPricing example_config ''status'' ''crypto'' = None
   \<and> verifyPayment rejecting_world example_config ''status'' ''crypto'' None =
       (\<lparr> vr_authorized = True, vr_error = None, vr_pricing = Some (Str ''0'', free) \<rparr>, [])
   \<and> map_option tp_free (getToolPricing example_config ''ping'' ''crypto'') = Some True
   \<and> verifyPayment rejecting_world example_config ''ping'' ''crypto'' None =
       (\<lparr> vr_authorized = True, vr_error = None, vr_pricing = Some (Str ''0'', free) \<rparr>, [])"
  using verifyPayment_free [of disabled_config "''crypto''" "''price''" rejecting_world None]
    verifyPayment_free [of example_config "''crypto''" "''status''" rejecting_world None]
    verifyPayment_free [of example_config "''crypto''" "''ping''" rejecting_world None]
  by (simp add: example_defs payment_enabled_def getToolPricing_def)

section \<open>Admission by API key\<close>

lemma foldl_keys_other:
  "k \<notin> set (map ak_key ks) \<Longrightarrow> foldl (\<lambda>m c. m(ak_key c \<mapsto> c)) m ks k = m k"
  by (induction ks arbitrary: m) auto

lemma foldl_keys_member:
  "distinct (map ak_key ks) \<Longrightarrow> kc \<in> set ks
     \<Longrightarrow> foldl (\<lambda>m c. m(ak_key c \<mapsto> c)) m ks (ak_key kc) = Some kc"
proof (induction ks arbitrary: m)
  case Nil
  then show ?case by simp
next
  case (Cons c ks)
  show ?case
  proof (cases "kc = c")
    case True
    with Cons.prems have "ak_key c \<notin> set (map ak_key ks)" by simp
    then have "foldl (\<lambda>m c. m(ak_key c \<mapsto> c)) (m(ak_key c \<mapsto> c)) ks (ak_key c)
        = (m(ak_key c \<mapsto> c)) (ak_key c)"
      by (rule foldl_keys_other)
    with True show ?thesis by (simp only: foldl_Cons fun_upd_same)
  next
    case False
    with Cons show ?thesis by simp
  qed
qed

lemma apiKeyCache_member:
  assumes "gc_payment cfg = Some pc" and "pc_apiKeys pc = Some ks"
    and "distinct (map ak_key ks)" and "kc \<in> set ks"
  shows "apiKeyCache cfg (ak_key kc) = Some kc"
  using assms by (simp add: apiKeyCache_def foldl_keys_member)

text \<open>
  Payment is enabled, the resolved pricing is not free, and the request presents a
  configured API key (the keys of the configuration are distinct). What the tier of the key
  finds in \<^verbatim>\<open>apiKeyTiers\<close> decides: \<^verbatim>\<open>free\<close>, \<^verbatim>\<open>$0\<close> or \<^verbatim>\<open>$0.00\<close> authorize with amount \<^verbatim>\<open>0\<close>;
  any other non-empty string authorizes with that string as the amount; an inherited member
  authorizes with the member as the amount; in these cases no request goes to the
  facilitator. Only \<^verbatim>\<open>undefined\<close> does not authorize, and then the result is that of the x402
  verification.
\<close>

lemma verifyPayment_apiKey_tiers:
  assumes "gc_payment cfg = Some pc" and "pc_enabled pc"
    and "pc_apiKeys pc = Some ks" and "distinct (map ak_key ks)" and "kc \<in> set ks"
    and "getToolPricing cfg toolName serverId = Some p" and "\<not> tp_free p"
    and "apiKeyHeader h = Some (ak_key kc)" and "ak_key kc \<noteq> []"
    and "tierPrice = (case tp_apiKeyTiers p of
                        None \<Rightarrow> Undefined
                      | Some tiers \<Rightarrow> js_get tiers (ak_tier kc))"
  shows "(tierPrice \<in> {Str ''free'', Str ''$0'', Str ''$0.00''} \<longrightarrow>
            verifyPayment w cfg toolName serverId (Some h) =
              (\<lparr> vr_authorized = True, vr_error = None,
                 vr_pricing = Some (Str ''0'', apiKey) \<rparr>, []))
    \<and> (\<forall>price. tierPrice = Str price \<and> price \<notin> {''free'', ''$0'', ''$0.00''} \<and> price \<noteq> []
          \<longrightarrow> verifyPayment w cfg toolName serverId (Some h) =
              (\<lparr> vr_authorized = True, vr_error = None,
                 vr_pricing = Some (Str price, apiKey) \<rparr>, []))
    \<and> (\<forall>m. tierPrice = Member m
          \<longrightarrow> verifyPayment w cfg toolName serverId (Some h) =
              (\<lparr> vr_authorized = True, vr_error = None,
                 vr_pricing = Some (Member m, apiKey) \<rparr>, []))
    \<and> (tierPrice = Undefined \<longrightarrow>
            \<not> vr_authorized (verifyApiKey cfg (Some h) (Some p))
          \<and> verifyPayment w cfg toolName serverId (Some h) =
              (if vr_authorized (fst (verifyX402Payment w cfg (Some h) (Some p)))
               then verifyX402Payment w cfg (Some h) (Some p)
               else (\<lparr> vr_authorized = False,
                      vr_error = Some (''Payment required: '' @ or_default (tp_x402 p) ''$0.01''
                        @ ''. Provide X-PAYMENT header (x402) or X-ELIZA-API-KEY.''),
                      vr_pricing = Some (Str (or_default (tp_x402 p) ''$0.01''), x402) \<rparr>,
                     snd (verifyX402Payment w cfg (Some h) (Some p)))))"
proof -
  have enabled: "payment_enabled cfg"
    using assms by (simp add: payment_enabled_def)
  have cache: "apiKeyCache cfg (ak_key kc) = Some kc"
    using assms by (simp add: apiKeyCache_member)
  have key: "verifyApiKey cfg (Some h) (Some p) =
      (if tierPrice = Str ''free'' \<or> tierPrice = Str ''$0.00'' \<or> tierPrice = Str ''$0''
       then \<lparr> vr_authorized = True, vr_error = None, vr_pricing = Some (Str ''0'', apiKey) \<rparr>
       else if truthy_val tierPrice
       then \<lparr> vr_authorized = True, vr_error = None, vr_pricing = Some (tierPrice, apiKey) \<rparr>
       else unauthorized None)"
    using assms(8-10) cache by (simp add: verifyApiKey_def truthy_def Let_def)
  have pay: "verifyPayment w cfg toolName serverId (Some h) =
      (if vr_authorized (verifyApiKey cfg (Some h) (Some p))
       then (verifyApiKey cfg (Some h) (Some p), [])
       else if vr_authorized (fst (verifyX402Payment w cfg (Some h) (Some p)))
       then verifyX402Payment w cfg (Some h) (Some p)
       else (\<lparr> vr_authorized = False,
              vr_error = Some (''Payment required: '' @ or_default (tp_x402 p) ''$0.01''
                @ ''. Provide X-PAYMENT header (x402) or X-ELIZA-API-KEY.''),
              vr_pricing = Some (Str (or_default (tp_x402 p) ''$0.01''), x402) \<rparr>,
             snd (verifyX402Payment w cfg (Some h) (Some p))))"
    using enabled assms(6,7) by (simp add: verifyPayment_def Let_def)
  show ?thesis
    unfolding pay key by (auto simp: truthy_val_def unauthorized_def)
qed

text \<open>
  Scenario S3 and its neighbours: the premium key is admitted for free, the basic key for
  \<^verbatim>\<open>$0.05\<close>, the trial key has no tier price and, without a payment header, is refused.
\<close>

lemma example_tool_pricing:
  "getToolPricing example_config ''price'' ''crypto'' = Some example_pricing"
  by (simp add: getToolPricing_def example_config_def example_server_def)

lemma example_cache_facts:
  "gc_payment example_config = Some example_payment" "pc_enabled example_payment"
  "pc_apiKeys example_payment = Some example_keys" "distinct (map ak_key example_keys)"
  "\<not> tp_free example_pricing"
  by (simp_all add: example_config_def example_payment_def example_keys_def example_pricing_def)

lemma example_key_headers:
  "apiKeyHeader premium_key_headers = Some ''K''"
  "apiKeyHeader basic_key_headers = Some ''B''"
  "apiKeyHeader trial_key_headers = Some ''N''"
  by (simp_all add: apiKeyHeader_def or_else_def truthy_def premium_key_headers_def
      basic_key_headers_def trial_key_headers_def)

lemma trial_x402:
  "verifyX402Payment rejecting_world example_config (Some trial_key_headers)
     (Some example_pricing) = (unauthorized None, [])"
  by (simp add: verifyX402Payment_def paymentHeader_def or_else_def truthy_def
      trial_key_headers_def example_pricing_def)

lemma verifyPayment_apiKey_examples:
  "verifyPayment rejecting_world example_config ''price'' ''crypto'' (Some premium_key_headers) =
     (\<lparr> vr_authorized = True, vr_error = None, vr_pricing = Some (Str ''0'', apiKey) \<rparr>, [])
   \<and> verifyPayment rejecting_world example_config ''price'' ''crypto'' (Some basic_key_headers) =
     (\<lparr> vr_authorized = True, vr_error = None, vr_pricing = Some (Str ''$0.05'', apiKey) \<rparr>, [])
   \<and> \<not> vr_authorized (verifyApiKey example_config (Some trial_key_headers) (Some example_pricing))
   \<and> verifyPayment rejecting_world example_config ''price'' ''crypto'' (Some trial_key_headers) =
     (\<lparr> vr_authorized = False,
        vr_error = Some
          ''Payment required: $0.10. Provide X-PAYMENT header (x402) or X-ELIZA-API-KEY.'',
        vr_pricing = Some (Str ''$0.10'', x402) \<rparr>, [])"
proof -
  have premium: "\<lparr> ak_key = ''K'', ak_tier = ''premium'' \<rparr> \<in> set example_keys"
    and basic: "\<lparr> ak_key = ''B'', ak_tier = ''basic'' \<rparr> \<in> set example_keys"
    and trial: "\<lparr> ak_key = ''N'', ak_tier = ''trial'' \<rparr> \<in> set example_keys"
    by (simp_all add: example_keys_def)
  have a: "verifyPayment rejecting_world example_config ''price'' ''crypto''
      (Some premium_key_headers) =
        (\<lparr> vr_authorized = True, vr_error = None, vr_pricing = Some (Str ''0'', apiKey) \<rparr>, [])"
    using verifyPayment_apiKey_tiers [OF example_cache_facts(1-4) premium example_tool_pricing
        example_cache_facts(5), of premium_key_headers "Str ''free''" rejecting_world]
    by (simp add: example_key_headers example_pricing_def js_get_def)
  have b: "verifyPayment rejecting_world example_config ''price'' ''crypto''
      (Some basic_key_headers) =
        (\<lparr> vr_authorized = True, vr_error = None, vr_pricing = Some (Str ''$0.05'', apiKey) \<rparr>, [])"
    using verifyPayment_apiKey_tiers [OF example_cache_facts(1-4) basic example_tool_pricing
        example_cache_facts(5), of basic_key_headers "Str ''$0.05''" rejecting_world]
    by (simp add: example_key_headers example_pricing_def js_get_def)
  have c: "\<not> vr_authorized (verifyApiKey example_config (Some trial_key_headers)
        (Some example_pricing))
      \<and> verifyPayment rejecting_world example_config ''price'' ''crypto''
        (Some trial_key_headers) =
        (\<lparr> vr_authorized = False,
           vr_error = Some
             ''Payment required: $0.10. Provide X-PAYMENT header (x402) or X-ELIZA-API-KEY.'',
           vr_pricing = Some (Str ''$0.10'', x402) \<rparr>, [])"
    using verifyPayment_apiKey_tiers [OF example_cache_facts(1-4) trial example_tool_pricing
        example_cache_facts(5), of trial_key_headers Undefined rejecting_world]
    by (simp add: example_key_headers trial_x402 unauthorized_def)
      (simp add: example_pricing_def or_default_def js_get_def object_prototype_members_def)
  from a b c show ?thesis by simp
qed

text \<open>
  Claim C3 fails on the code in its last part. The key \<^verbatim>\<open>K\<close> is configured with the tier
  \<^verbatim>\<open>constructor\<close>; the pricing of the tool has \<^verbatim>\<open>apiKeyTiers\<close> with entries for \<^verbatim>\<open>premium\<close> and
  \<^verbatim>\<open>basic\<close> only, so the tier has no entry. The lookup finds the inherited member
  \<^verbatim>\<open>constructor\<close>, which is truthy: the request is authorized with method \<^verbatim>\<open>apiKey\<close>, the
  member as its amount, and is never passed to the x402 verification.
\<close>

theorem verifyPayment_apiKey_inherited_tier:
  "apiKeyCache inherited_tier_config ''K'' = Some \<lparr> ak_key = ''K'', ak_tier = ''constructor'' \<rparr>
   \<and> getToolPricing inherited_tier_config ''price'' ''crypto'' = Some example_pricing
   \<and> map_option (\<lambda>tiers. tiers ''constructor'') (tp_apiKeyTiers example_pricing) = Some None
   \<and> verifyPayment rejecting_world inherited_tier_config ''price'' ''crypto''
        (Some premium_key_headers) =
       (\<lparr> vr_authorized = True, vr_error = None,
          vr_pricing = Some (Member ''constructor'', apiKey) \<rparr>, [])"
proof -
  have cache: "apiKeyCache inherited_tier_config ''K'' =
      Some \<lparr> ak_key = ''K'', ak_tier = ''constructor'' \<rparr>"
    by (simp add: apiKeyCache_def inherited_tier_config_def example_payment_def)
  have pricing: "getToolPricing inherited_tier_config ''price'' ''crypto'' = Some example_pricing"
    by (simp add: getToolPricing_def inherited_tier_config_def example_server_def)
  have entry: "map_option (\<lambda>tiers. tiers ''constructor'') (tp_apiKeyTiers example_pricing)
      = Some None"
    by (simp add: example_pricing_def)
  have key: "verifyApiKey inherited_tier_config (Some premium_key_headers) (Some example_pricing) =
      \<lparr> vr_authorized = True, vr_error = None,
        vr_pricing = Some (Member ''constructor'', apiKey) \<rparr>"
    by (simp add: verifyApiKey_def example_key_headers truthy_def cache Let_def truthy_val_def
        example_pricing_def js_get_def object_prototype_members_def)
  have enabled: "payment_enabled inherited_tier_config"
    by (simp add: payment_enabled_def inherited_tier_config_def example_payment_def)
  have notfree: "\<not> tp_free example_pricing"
    by (simp add: example_pricing_def)
  have "verifyPayment rejecting_world inherited_tier_config ''price'' ''crypto''
        (Some premium_key_headers) =
       (\<lparr> vr_authorized = True, vr_error = None,
          vr_pricing = Some (Member ''constructor'', apiKey) \<rparr>, [])"
    using notfree by (simp add: verifyPayment_def enabled pricing key Let_def)
  with cache pricing entry show ?thesis by blast
qed

section \<open>Header names\<close>






section \<open>Errors of the \<^verbatim>\<open>CallTool\<close> handler\<close>

text \<open>
  Claim C7, as stated, fails in its last part: when the upstream call throws, the message
  given to \<^verbatim>\<open>McpError\<close> starts with a capital letter, \<^verbatim>\<open>Tool execution failed: \<close>, so it does
  not begin with \<^verbatim>\<open>tool execution failed: \<close>.
\<close>

theorem callToolHandler_counterexample:
  "callToolHandler example_registry example_connections ''echo'' None =
     Inl \<lparr> me_code = InternalError, me_message = ''Tool execution failed: Error: boom'' \<rparr>
   \<and> \<not> is_prefix ''tool execution failed: '' ''Tool execution failed: Error: boom''"
  by (simp add: callToolHandler_def example_registry_def example_connections_def
      failing_client_def)

text \<open>
  Claim C7, amended. For every \<^verbatim>\<open>CallTool\<close> request: a name without registry entry raises
  \<^verbatim>\<open>MethodNotFound\<close>; a found tool whose connection is missing or not \<^verbatim>\<open>connected\<close> raises
  \<^verbatim>\<open>InternalError\<close> with the message \<^verbatim>\<open>Server '<serverId>' is not connected\<close>; when the
  upstream call throws, the handler raises \<^verbatim>\<open>InternalError\<close> with the message
  \<^verbatim>\<open>Tool execution failed: \<close> followed by the rendering of the upstream error; and a response
  of the upstream is returned as it is.
\<close>

theorem callToolHandler_errors:
  "(findTool name = None \<longrightarrow>
      callToolHandler findTool getConnection name args =
        Inl \<lparr> me_code = MethodNotFound,
              me_message = ''Tool '' @ [CHR 0x27] @ name @ [CHR 0x27] @ '' not found'' \<rparr>)
   \<and> (\<forall>t. findTool name = Some t
          \<and> (getConnection (at_serverId t) = None
              \<or> (\<exists>c. getConnection (at_serverId t) = Some c \<and> cn_status c \<noteq> connected))
        \<longrightarrow> callToolHandler findTool getConnection name args =
              Inl \<lparr> me_code = InternalError,
                    me_message = ''Server '' @ [CHR 0x27] @ at_serverId t @ [CHR 0x27]
                      @ '' is not connected'' \<rparr>)
   \<and> (\<forall>t c call err. findTool name = Some t \<and> getConnection (at_serverId t) = Some c
          \<and> cn_status c = connected \<and> cn_client c = Some call
          \<and> call (at_originalName t) (case args of None \<Rightarrow> [] | Some a \<Rightarrow> a) = Inl err
        \<longrightarrow> callToolHandler findTool getConnection name args =
              Inl \<lparr> me_code = InternalError,
                    me_message = ''Tool execution failed: '' @ err \<rparr>)
   \<and> (\<forall>t c call r. findTool name = Some t \<and> getConnection (at_serverId t) = Some c
          \<and> cn_status c = connected \<and> cn_client c = Some call
          \<and> call (at_originalName t) (case args of None \<Rightarrow> [] | Some a \<Rightarrow> a) = Inr r
        \<longrightarrow> callToolHandler findTool getConnection name args = Inr r)"
  by (auto simp: callToolHandler_def)

theorem callToolHandler_errors_witness:
  "callToolHandler example_registry example_connections ''nope'' None =
     Inl \<lparr> me_code = MethodNotFound, me_message = ''Tool 'nope' not found'' \<rparr>
   \<and> callToolHandler example_registry example_connections ''fs:ls'' None =
     Inl \<lparr> me_code = InternalError, me_message = ''Server 'files' is not connected'' \<rparr>
   \<and> callToolHandler example_registry example_connections ''echo'' (Some []) =
     Inl \<lparr> me_code = InternalError, me_message = ''Tool execution failed: Error: boom'' \<rparr>"
  using callToolHandler_errors [of example_registry "''nope''" example_connections None]
    callToolHandler_errors [of example_registry "''fs:ls''" example_connections None]
    callToolHandler_errors [of example_registry "''echo''" example_connections "Some []"]
  by (simp add: example_registry_def example_connections_def failing_client_def)

section \<open>The 402 response of the HTTP wrapper\<close>

text \<open>
  Claim C8. To a payment challenge the HTTP wrapper answers with status 402, the header
  \<^verbatim>\<open>Content-Type: application/json\<close>, the header \<^verbatim>\<open>X-Accept-Payment\<close> set to the serialized
  \<^verbatim>\<open>PaymentRequirements\<close>, and the \<^verbatim>\<open>PaymentRequirements\<close> object as the body: its member
  \<^verbatim>\<open>x402Version\<close> is the version of the requirements and its member \<^verbatim>\<open>accepts\<close> is an array
  with one element for each entry of the requirements.
\<close>

theorem http_wrapper_challenge_response:
  "hr_status (http_wrapper_challenge serialize reqs) = 402
   \<and> map_of (hr_headers (http_wrapper_challenge serialize reqs)) ''Content-Type''
       = Some ''application/json''
   \<and> map_of (hr_headers (http_wrapper_challenge serialize reqs)) ''X-Accept-Payment''
       = Some (serialize (json_of_requirements reqs))
   \<and> hr_body (http_wrapper_challenge serialize reqs) = Some (json_of_requirements reqs)
   \<and> json_field (json_of_requirements reqs) ''x402Version''
       = Some (JNumber (pr_x402Version reqs))
   \<and> (\<exists>entries. json_field (json_of_requirements reqs) ''accepts'' = Some (JArray entries)
         \<and> length entries = length (pr_accepts reqs))"
  by (simp add: http_wrapper_challenge_def json_of_requirements_def json_field_def)

text \<open>
  The challenge of scenario S2 with the price \<^verbatim>\<open>$0.10\<close>, as the wrapper answers it.
\<close>

lemma http_wrapper_challenge_example:
  "http_wrapper_challenge kind_serializer
     (generatePaymentRequiredResponse example_config ''price'' ''crypto'') =
   \<lparr> hr_status = 402,
     hr_headers = [(''Content-Type'', ''application/json''), (''X-Accept-Payment'', ''object'')],
     hr_body = Some (JObject
       [(''x402Version'', JNumber 1),
        (''accepts'', JArray [JObject
           [(''scheme'', JString ''exact''),
            (''network'', JString ''base-sepolia''),
            (''maxAmountRequired'', JString ''100000''),
            (''resource'', JString ''/tools/price''),
            (''description'', JString ''Payment for MCP tool: price''),
            (''mimeType'', JString ''application/json''),
            (''payTo'', JString ''0xAB01''),
            (''maxTimeoutSeconds'', JNumber 30),
            (''asset'', JString ''0x036CbD53842c5426634e7929541eC2318f3dCF7e'')]]),
        (''error'', JString (''Payment required for tool '' @ [CHR 0x27] @ ''price''
           @ [CHR 0x27] @ ''. Amount: $0.10''
           @ ''. Use X-PAYMENT header (x402) or X-ELIZA-API-KEY.''))]) \<rparr>"
proof -
  have pricing: "getToolPricing example_config ''price'' ''crypto'' = Some example_pricing"
    by (simp add: getToolPricing_def example_config_def example_server_def)
  have net: "payment_network example_config = ''base-sepolia''"
    by (simp add: payment_network_def example_config_def example_payment_def or_default_def)
  have payTo: "or_default (payment_recipient example_config) [] = ''0xAB01''"
    by (simp add: payment_recipient_def example_config_def example_payment_def or_default_def)
  have asset: "getUsdcAddress ''base-sepolia'' = Str ''0x036CbD53842c5426634e7929541eC2318f3dCF7e''"
    by (simp add: getUsdcAddress_def js_get_def truthy_val_def USDC_ADDRESSES_def)
  have amount: "or_default (tp_x402 example_pricing) ''$0.01'' = ''$0.10''"
    by (simp add: example_pricing_def or_default_def)
  show ?thesis
    by (simp add: http_wrapper_challenge_def json_of_requirements_def json_member_def
        generatePaymentRequiredResponse_def pricing net amount payTo asset
        atomic_of_ten_cents kind_serializer_def Let_def)
qed

section \<open>Deducting from a session\<close>

text \<open>
  Claim C9. For a positive amount, \<^verbatim>\<open>deductFromSession\<close> returns \<^verbatim>\<open>false\<close> and leaves the
  sessions as they are when the session does not exist or its remaining balance is less
  than the amount; otherwise it returns \<^verbatim>\<open>true\<close>, lowers the remaining balance of that
  session by exactly the amount (to a balance that is not negative) and changes no other
  session and no other field. A non-positive amount succeeds and changes nothing. A
  balance that is negative afterwards was the same negative balance before; so balances
  that are all non-negative stay non-negative.
\<close>

theorem deductFromSession_correct:
  "(0 < amount \<and> (ss sid = None \<or> (\<exists>s. ss sid = Some s \<and> ps_remainingBalance s < amount))
      \<longrightarrow> deductFromSession ss sid amount = (False, ss))
   \<and> (\<forall>s. 0 < amount \<and> ss sid = Some s \<and> amount \<le> ps_remainingBalance s
      \<longrightarrow> fst (deductFromSession ss sid amount)
        \<and> snd (deductFromSession ss sid amount) sid =
            Some (s \<lparr> ps_remainingBalance := ps_remainingBalance s - amount \<rparr>)
        \<and> balance_of (snd (deductFromSession ss sid amount)) sid
            = Some (ps_remainingBalance s - amount)
        \<and> 0 \<le> ps_remainingBalance s - amount
        \<and> (\<forall>sid'. sid' \<noteq> sid \<longrightarrow> snd (deductFromSession ss sid amount) sid' = ss sid'))
   \<and> (amount \<le> 0 \<longrightarrow> deductFromSession ss sid amount = (True, ss))
   \<and> (\<forall>sid' b. balance_of (snd (deductFromSession ss sid amount)) sid' = Some b \<and> b < 0
      \<longrightarrow> balance_of ss sid' = Some b)
   \<and> ((\<forall>sid' b. balance_of ss sid' = Some b \<longrightarrow> 0 \<le> b)
      \<longrightarrow> (\<forall>sid' b. balance_of (snd (deductFromSession ss sid amount)) sid' = Some b \<longrightarrow> 0 \<le> b))"
proof -
  have fail: "0 < amount \<and> (ss sid = None \<or> (\<exists>s. ss sid = Some s \<and> ps_remainingBalance s < amount))
      \<longrightarrow> deductFromSession ss sid amount = (False, ss)"
    by (auto simp: deductFromSession_def)
  have ok: "\<forall>s. 0 < amount \<and> ss sid = Some s \<and> amount \<le> ps_remainingBalance s
      \<longrightarrow> fst (deductFromSession ss sid amount)
        \<and> snd (deductFromSession ss sid amount) sid =
            Some (s \<lparr> ps_remainingBalance := ps_remainingBalance s - amount \<rparr>)
        \<and> balance_of (snd (deductFromSession ss sid amount)) sid
            = Some (ps_remainingBalance s - amount)
        \<and> 0 \<le> ps_remainingBalance s - amount
        \<and> (\<forall>sid'. sid' \<noteq> sid \<longrightarrow> snd (deductFromSession ss sid amount) sid' = ss sid')"
    by (auto simp: deductFromSession_def balance_of_def)
  have free: "amount \<le> 0 \<longrightarrow> deductFromSession ss sid amount = (True, ss)"
    by (simp add: deductFromSession_def)
  have neg: "\<forall>sid' b. balance_of (snd (deductFromSession ss sid amount)) sid' = Some b \<and> b < 0
      \<longrightarrow> balance_of ss sid' = Some b"
    by (auto simp: deductFromSession_def balance_of_def split: option.splits if_splits)
  have inv: "(\<forall>sid' b. balance_of ss sid' = Some b \<longrightarrow> 0 \<le> b)
      \<longrightarrow> (\<forall>sid' b. balance_of (snd (deductFromSession ss sid amount)) sid' = Some b \<longrightarrow> 0 \<le> b)"
    using neg by (metis not_le)
  from fail ok free neg inv show ?thesis by blast
qed

theorem deductFromSession_correct_witness:
  "deductFromSession example_sessions ''balance-test'' 3000 =
     (True, example_sessions(''balance-test'' \<mapsto> balance_session \<lparr> ps_remainingBalance := 7000 \<rparr>))
   \<and> deductFromSession
        (example_sessions(''balance-test'' \<mapsto> balance_session \<lparr> ps_remainingBalance := 7000 \<rparr>))
        ''balance-test'' 8000 =
     (False, example_sessions(''balance-test'' \<mapsto> balance_session \<lparr> ps_remainingBalance := 7000 \<rparr>))
   \<and> deductFromSession example_sessions ''no-such-session'' 1 = (False, example_sessions)
   \<and> deductFromSession example_sessions ''balance-test'' 0 = (True, example_sessions)"
proof -
  let ?ss' = "example_sessions(''balance-test'' \<mapsto> balance_session \<lparr> ps_remainingBalance := 7000 \<rparr>)"
  have b: "deductFromSession ?ss' ''balance-test'' 8000 = (False, ?ss')"
    using deductFromSession_correct [of 8000 ?ss' "''balance-test''"]
    by (simp add: balance_session_def)
  have c: "deductFromSession example_sessions ''no-such-session'' 1 = (False, example_sessions)"
    using deductFromSession_correct [of 1 example_sessions "''no-such-session''"]
    by (simp add: example_sessions_def)
  have d: "deductFromSession example_sessions ''balance-test'' 0 = (True, example_sessions)"
    using deductFromSession_correct [of 0 example_sessions "''balance-test''"]
    by simp
  have a: "deductFromSession example_sessions ''balance-test'' 3000 = (True, ?ss')"
  proof -
    have "fst (deductFromSession example_sessions ''balance-test'' 3000)"
      and "snd (deductFromSession example_sessions ''balance-test'' 3000) ''balance-test'' =
            Some (balance_session \<lparr> ps_remainingBalance := 7000 \<rparr>)"
      and "\<forall>sid'. sid' \<noteq> ''balance-test'' \<longrightarrow>
            snd (deductFromSession example_sessions ''balance-test'' 3000) sid' = example_sessions sid'"
      using deductFromSession_correct [of 3000 example_sessions "''balance-test''"]
      by (simp_all add: example_sessions_def balance_session_def)
    then have "snd (deductFromSession example_sessions ''balance-test'' 3000) = ?ss'"
      by (intro ext) (simp add: fun_upd_def)
    with \<open>fst (deductFromSession example_sessions ''balance-test'' 3000)\<close> show ?thesis
      by (simp add: prod_eq_iff)
  qed
  from a b c d show ?thesis by simp
qed

section \<open>The required price\<close>








end
